theory Spec2Isabelle
  imports Main "HOL-Library.AList"
begin

section \<open>Python values, strings and paths\<close>

text \<open>
  The job manager of \<^verbatim>\<open>api_server.py\<close> is embedded as pure functions over an explicit
  server state. Four conventions hold throughout.
  \<^item> A dictionary is an association list in insertion order: \<open>map_of\<close> is lookup,
    \<open>AList.update\<close> is \<^verbatim>\<open>d[k] = v\<close> (in place when the key exists, appended otherwise) and
    \<open>AList.delete\<close> is \<^verbatim>\<open>del d[k]\<close> once the key is known to be present.
  \<^item> A \<^verbatim>\<open>datetime\<close> is an integer number of microseconds, the resolution of Python's
    \<^verbatim>\<open>datetime\<close>; every call of \<^verbatim>\<open>datetime.now()\<close> is an argument of the operation.
  \<^item> A call into a library can raise: the backends, \<^verbatim>\<open>os.remove\<close>, \<^verbatim>\<open>os.listdir\<close> and
    \<^verbatim>\<open>file.save\<close>. What is raised is a value of \<open>pyexc\<close>: \<open>PyExc\<close> for an instance of
    \<^verbatim>\<open>Exception\<close>, which \<^verbatim>\<open>except Exception\<close> catches, and \<open>PyBaseExc\<close> for one of
    \<^verbatim>\<open>SystemExit\<close>, \<^verbatim>\<open>KeyboardInterrupt\<close> and \<^verbatim>\<open>GeneratorExit\<close>, which it does not catch. The
    functions of \<^verbatim>\<open>os\<close> and \<^verbatim>\<open>file.save\<close> raise instances of \<^verbatim>\<open>OSError\<close> only. Output on
    \<^verbatim>\<open>stdout\<close> is not modelled.
  \<^item> A request handler and the body of a worker thread each run as one step.
\<close>

type_synonym datetime = int

datatype pyval = PyNone | PyBool bool | PyInt int | PyStr string

datatype pyexc =
    is_Exception: PyExc (exc_str: string) (exc_trace: string)
  | PyBaseExc (exc_str: string) (exc_trace: string)

text \<open>\<^verbatim>\<open>result == n\<close> for an integer literal \<open>n\<close>, and the truth value of \<^verbatim>\<open>result\<close>.\<close>

fun py_eq_int :: "pyval \<Rightarrow> int \<Rightarrow> bool" where
  "py_eq_int (PyInt i) n = (i = n)"
| "py_eq_int (PyBool b) n = ((if b then 1 else 0) = n)"
| "py_eq_int PyNone n = False"
| "py_eq_int (PyStr s) n = False"

fun py_truthy :: "pyval \<Rightarrow> bool" where
  "py_truthy PyNone = False"
| "py_truthy (PyBool b) = b"
| "py_truthy (PyInt i) = (i \<noteq> 0)"
| "py_truthy (PyStr s) = (s \<noteq> [])"

text \<open>\<^verbatim>\<open>str(n)\<close> for an integer: its decimal digits, with a sign when negative.\<close>

definition digit_char :: "nat \<Rightarrow> char" where
  "digit_char d = ''0123456789'' ! d"

fun str_nat :: "nat \<Rightarrow> string" where
  "str_nat n = (if n < 10 then [digit_char n] else str_nat (n div 10) @ [digit_char (n mod 10)])"

definition str_int :: "int \<Rightarrow> string" where
  "str_int i = (if i < 0 then CHR ''-'' # str_nat (nat (- i)) else str_nat (nat i))"

text \<open>
  \<^verbatim>\<open>str.lower()\<close> on the ASCII letters; every other character is left as it is (Python
  also folds letters outside ASCII, none of which lowers to an ASCII letter other than
  the Kelvin sign to \<^verbatim>\<open>k\<close>, which no extension or engine name of this program holds).
\<close>

definition ascii_uppercase :: string where
  "ascii_uppercase = ''ABCDEFGHIJKLMNOPQRSTUVWXYZ''"

definition ascii_lowercase :: string where
  "ascii_lowercase = ''abcdefghijklmnopqrstuvwxyz''"

definition char_lower :: "char \<Rightarrow> char" where
  "char_lower c = (case map_of (zip ascii_uppercase ascii_lowercase) c of Some d \<Rightarrow> d | None \<Rightarrow> c)"

definition char_upper :: "char \<Rightarrow> char" where
  "char_upper c = (case map_of (zip ascii_lowercase ascii_uppercase) c of Some d \<Rightarrow> d | None \<Rightarrow> c)"

definition str_lower :: "string \<Rightarrow> string" where
  "str_lower s = map char_lower s"

text \<open>\<^verbatim>\<open>s.rsplit('.', 1)\<close>: split once, at the last dot.\<close>

definition rsplit_dot1 :: "string \<Rightarrow> string list" where
  "rsplit_dot1 s =
     (if CHR ''.'' \<in> set s
      then [rev (tl (dropWhile (\<lambda>c. c \<noteq> CHR ''.'') (rev s))),
            rev (takeWhile (\<lambda>c. c \<noteq> CHR ''.'') (rev s))]
      else [s])"

text \<open>
  \<^verbatim>\<open>os.path.join(a, b)\<close> on POSIX, and \<^verbatim>\<open>Path(p).stem\<close>: \<^verbatim>\<open>pathlib\<close> drops the empty
  components and the components \<^verbatim>\<open>.\<close> of a path, the name is the last component left
  (empty when none is), and the stem is the name up to its last dot when that dot is
  neither its first nor its last character.
\<close>

definition os_path_join :: "string \<Rightarrow> string \<Rightarrow> string" where
  "os_path_join a b =
     (if b \<noteq> [] \<and> hd b = CHR ''/'' then b
      else if a = [] \<or> last a = CHR ''/'' then a @ b
      else a @ ''/'' @ b)"

fun split_on :: "char \<Rightarrow> string \<Rightarrow> string list" where
  "split_on c [] = [[]]"
| "split_on c (x # xs) =
     (if x = c then [] # split_on c xs
      else (case split_on c xs of [] \<Rightarrow> [[x]] | y # ys \<Rightarrow> (x # y) # ys))"

definition path_name :: "string \<Rightarrow> string" where
  "path_name p =
     (case filter (\<lambda>part. part \<noteq> [] \<and> part \<noteq> ''.'') (split_on (CHR ''/'') p) of
        [] \<Rightarrow> []
      | part # parts \<Rightarrow> last (part # parts))"

definition rfind_dot :: "string \<Rightarrow> int" where
  "rfind_dot s =
     (if CHR ''.'' \<in> set s
      then int (length s) - 1 - int (length (takeWhile (\<lambda>c. c \<noteq> CHR ''.'') (rev s)))
      else - 1)"

definition path_stem :: "string \<Rightarrow> string" where
  "path_stem p =
     (let name = path_name p; i = rfind_dot name
      in if 0 < i \<and> i < int (length name) - 1 then take (nat i) name else name)"

section \<open>The disk\<close>

text \<open>
  The disk holds the directories \<^verbatim>\<open>os.listdir\<close> can list and, under its full path, every
  entry with its creation time and whether \<^verbatim>\<open>os.remove\<close> succeeds on it (it raises on a
  subdirectory or without the permission).
\<close>

record fentry =
  fe_ctime :: datetime
  fe_removable :: bool

record disk =
  dirs :: "string list"
  files :: "(string \<times> fentry) list"

definition os_makedirs :: "string \<Rightarrow> disk \<Rightarrow> disk" where
  "os_makedirs folder d = (if folder \<in> set (dirs d) then d else d\<lparr>dirs := dirs d @ [folder]\<rparr>)"

definition os_path_exists :: "string \<Rightarrow> disk \<Rightarrow> bool" where
  "os_path_exists p d = (map_of (files d) p \<noteq> None \<or> p \<in> set (dirs d))"

definition os_path_getctime :: "string \<Rightarrow> disk \<Rightarrow> pyexc + datetime" where
  "os_path_getctime p d =
     (case map_of (files d) p of
        None \<Rightarrow> Inl (PyExc ''FileNotFoundError'' [])
      | Some e \<Rightarrow> Inr (fe_ctime e))"

definition os_remove :: "string \<Rightarrow> disk \<Rightarrow> pyexc + disk" where
  "os_remove p d =
     (case map_of (files d) p of
        None \<Rightarrow> Inl (PyExc ''FileNotFoundError'' [])
      | Some e \<Rightarrow>
          if fe_removable e then Inr (d\<lparr>files := AList.delete p (files d)\<rparr>)
          else Inl (PyExc ''PermissionError'' []))"

definition entry_name :: "string \<Rightarrow> string \<Rightarrow> string option" where
  "entry_name folder p =
     (let k = length folder + 1; name = drop k p
      in if take k p = folder @ ''/'' \<and> name \<noteq> [] \<and> CHR ''/'' \<notin> set name then Some name
         else None)"

definition os_listdir :: "string \<Rightarrow> disk \<Rightarrow> pyexc + string list" where
  "os_listdir folder d =
     (if folder \<in> set (dirs d) then Inr (List.map_filter (\<lambda>pe. entry_name folder (fst pe)) (files d))
      else Inl (PyExc ''FileNotFoundError'' []))"

section \<open>Configuration and the job record\<close>

definition UPLOAD_FOLDER :: string where
  "UPLOAD_FOLDER = ''uploads''"

definition OUTPUT_FOLDER :: string where
  "OUTPUT_FOLDER = ''outputs''"

definition ALLOWED_EXTENSIONS :: "string \<Rightarrow> string set" where
  "ALLOWED_EXTENSIONS kind =
     (if kind = ''audio'' then {''mp3'', ''wav'', ''m4a'', ''flac'', ''ogg'', ''aac''}
      else if kind = ''video''
      then {''mp4'', ''avi'', ''mkv'', ''mov'', ''wmv'', ''flv'', ''webm'', ''ogv''}
      else {})"

record TranscriptionJob =
  job_id :: string
  filename :: string
  engine :: string
  language :: string
  status :: string
  progress :: int
  start_time :: datetime
  end_time :: "datetime option"
  error_message :: "string option"
  output_files :: "(string \<times> string) list"

text \<open>\<^verbatim>\<open>TranscriptionJob.__init__\<close>, at the time \<open>t\<close> that \<^verbatim>\<open>datetime.now()\<close> returns.\<close>

definition TranscriptionJob_init ::
  "string \<Rightarrow> string \<Rightarrow> string \<Rightarrow> string \<Rightarrow> datetime \<Rightarrow> TranscriptionJob" where
  "TranscriptionJob_init jid fname eng lang t =
     \<lparr>job_id = jid, filename = fname, engine = eng, language = lang, status = ''pending'',
      progress = 0, start_time = t, end_time = None, error_message = None, output_files = []\<rparr>"

text \<open>
  The process state: the two globals, the disk, and the worker threads that
  \<^verbatim>\<open>transcribe_file\<close> has started and that have not run yet (each holds its job id).
\<close>

record server =
  transcription_jobs :: "(string \<times> TranscriptionJob) list"
  job_counter :: int
  fs :: disk
  threads :: "string list"

text \<open>The state when the module has been loaded on a disk \<open>d\<close> (lines 59 to 64).\<close>

definition initial_server :: "disk \<Rightarrow> server" where
  "initial_server d =
     \<lparr>transcription_jobs = [], job_counter = 0,
      fs = os_makedirs OUTPUT_FOLDER (os_makedirs UPLOAD_FOLDER d), threads = []\<rparr>"

definition allowed_file :: "string \<Rightarrow> bool" where
  "allowed_file fname =
     (let ext = (if CHR ''.'' \<in> set fname then str_lower (rsplit_dot1 fname ! 1) else [])
      in ext \<in> ALLOWED_EXTENSIONS ''audio'' \<or> ext \<in> ALLOWED_EXTENSIONS ''video'')"

text \<open>
  \<^verbatim>\<open>get_next_job_id\<close>: the counter is incremented and the identifier is built from it and
  the first eight characters of \<open>hex\<close>, the value of \<^verbatim>\<open>uuid.uuid4().hex\<close> at the call.
\<close>

definition job_id_string :: "int \<Rightarrow> string \<Rightarrow> string" where
  "job_id_string n hex = ''job_'' @ str_int n @ ''_'' @ take 8 hex"

definition get_next_job_id :: "string \<Rightarrow> server \<Rightarrow> string \<times> server" where
  "get_next_job_id hex st =
     (let st' = st\<lparr>job_counter := job_counter st + 1\<rparr>
      in (job_id_string (job_counter st') hex, st'))"

text \<open>
  An attribute assignment through a reference to the job object stored under \<open>jid\<close>.
\<close>

definition mutate_job :: "string \<Rightarrow> (TranscriptionJob \<Rightarrow> TranscriptionJob) \<Rightarrow> server \<Rightarrow> server" where
  "mutate_job jid f st =
     (case map_of (transcription_jobs st) jid of
        None \<Rightarrow> st
      | Some j \<Rightarrow> st\<lparr>transcription_jobs := AList.update jid (f j) (transcription_jobs st)\<rparr>)"

text \<open>\<^verbatim>\<open>progress_callback(job_id)(task, progress)\<close>.\<close>

definition progress_callback :: "string \<Rightarrow> string \<Rightarrow> int \<Rightarrow> server \<Rightarrow> server" where
  "progress_callback jid task p st =
     (if map_of (transcription_jobs st) jid \<noteq> None
      then mutate_job jid (\<lambda>j. j\<lparr>progress := p\<rparr>) st
      else st)"

section \<open>The backends and the dispatcher\<close>

text \<open>
  The two engines are external. What they do during one job is a \<open>backend_run\<close>: what
  \<^verbatim>\<open>init\<close> / \<^verbatim>\<open>initialize\<close> raises, the progress reports \<^verbatim>\<open>generate_subtitles\<close> makes
  through the callback it is given, what it raises or returns, what
  \<^verbatim>\<open>SRTParser.extractTextFromSRT\<close> raises, and the disk as these calls leave it, which is the
  disk the checks of \<^verbatim>\<open>os.path.exists\<close> see.
\<close>

record backend_run =
  init_fault :: "pyexc option"
  reports :: "(string \<times> int) list"
  gen_outcome :: "pyexc + pyval"
  extract_fault :: "pyexc option"
  disk_after :: disk

type_synonym backend_result = "bool \<times> string \<times> (string \<times> string) list"

definition autosub_error :: "pyexc \<Rightarrow> string" where
  "autosub_error e = ''Autosub transcription failed: '' @ exc_str e @ [CHR 0x0A] @ exc_trace e"

definition whisper_error :: "pyexc \<Rightarrow> string" where
  "whisper_error e = ''Whisper transcription failed: '' @ exc_str e @ [CHR 0x0A] @ exc_trace e"

definition output_srt_of :: "string \<Rightarrow> string" where
  "output_srt_of file_path = os_path_join OUTPUT_FOLDER (path_stem file_path @ ''.srt'')"

definition output_txt_of :: "string \<Rightarrow> string" where
  "output_txt_of file_path = os_path_join OUTPUT_FOLDER (path_stem file_path @ ''.txt'')"

text \<open>
  The checks both engines share once \<^verbatim>\<open>generate_subtitles\<close> has returned \<open>result\<close> and, for
  autosub, the text has been extracted: lines 144 to 153 and 186 to 195.
\<close>

definition check_created :: "string \<Rightarrow> disk \<Rightarrow> backend_result" where
  "check_created file_path d =
     (if \<not> os_path_exists (output_srt_of file_path) d then (False, ''SRT file was not created'', [])
      else if \<not> os_path_exists (output_txt_of file_path) d
      then (False, ''TXT file was not created'', [])
      else (True, ''Transcription completed successfully'',
            [(''srt_file'', output_srt_of file_path), (''txt_file'', output_txt_of file_path)]))"

text \<open>
  \<^verbatim>\<open>transcribe_with_autosub\<close>. Its handler is \<^verbatim>\<open>except Exception\<close>: an instance of
  \<^verbatim>\<open>Exception\<close> becomes a result, anything else leaves the function (\<open>Inl\<close>) with the
  state as it is at the \<^verbatim>\<open>raise\<close>.
\<close>

definition autosub_handler :: "pyexc \<Rightarrow> pyexc + backend_result" where
  "autosub_handler e = (if is_Exception e then Inr (False, autosub_error e, []) else Inl e)"

definition transcribe_with_autosub ::
  "string \<Rightarrow> string \<Rightarrow> string \<Rightarrow> backend_run \<Rightarrow> server \<Rightarrow> (pyexc + backend_result) \<times> server" where
  "transcribe_with_autosub file_path lang jid run st =
     (case init_fault run of
        Some e \<Rightarrow> (autosub_handler e, st)
      | None \<Rightarrow>
          let st1 = (fold (\<lambda>r. progress_callback jid (fst r) (snd r)) (reports run) st)
                      \<lparr>fs := disk_after run\<rparr>
          in case gen_outcome run of
               Inl e \<Rightarrow> (autosub_handler e, st1)
             | Inr result \<Rightarrow>
                 if py_eq_int result (- 1) then (Inr (False, ''Transcription was cancelled'', []), st1)
                 else if \<not> py_truthy result then (Inr (False, ''Failed to generate subtitles'', []), st1)
                 else (case extract_fault run of
                         Some e \<Rightarrow> (autosub_handler e, st1)
                       | None \<Rightarrow> (Inr (check_created file_path (fs st1)), st1)))"

text \<open>\<^verbatim>\<open>transcribe_with_whisper\<close>: no callback is handed to the engine, no text is extracted.\<close>

definition whisper_handler :: "pyexc \<Rightarrow> pyexc + backend_result" where
  "whisper_handler e = (if is_Exception e then Inr (False, whisper_error e, []) else Inl e)"

definition transcribe_with_whisper ::
  "string \<Rightarrow> string \<Rightarrow> string \<Rightarrow> string \<Rightarrow> backend_run \<Rightarrow> server \<Rightarrow> (pyexc + backend_result) \<times> server" where
  "transcribe_with_whisper file_path lang jid model run st =
     (case init_fault run of
        Some e \<Rightarrow> (whisper_handler e, st)
      | None \<Rightarrow>
          let st1 = st\<lparr>fs := disk_after run\<rparr>
          in case gen_outcome run of
               Inl e \<Rightarrow> (whisper_handler e, st1)
             | Inr result \<Rightarrow>
                 if py_eq_int result (- 1) then (Inr (False, ''Transcription was cancelled'', []), st1)
                 else if \<not> py_truthy result then (Inr (False, ''Failed to generate subtitles'', []), st1)
                 else (Inr (check_created file_path (fs st1)), st1))"

text \<open>
  \<^verbatim>\<open>process_transcription_job\<close> at time \<open>t\<close>. The job object is the one stored under the
  identifier; the assignments after the backend call go through the reference taken at
  line 206. The handler of line 234 is \<^verbatim>\<open>except Exception\<close> too: an exception it does
  not catch leaves the function, which is the first component of the result, and the
  job is left as it is at the \<^verbatim>\<open>raise\<close>.
\<close>

definition finish_job :: "backend_result \<Rightarrow> datetime \<Rightarrow> TranscriptionJob \<Rightarrow> TranscriptionJob" where
  "finish_job r t j =
     (case r of
        (success, message, outs) \<Rightarrow>
          (let j1 = j\<lparr>end_time := Some t\<rparr>
           in if success then j1\<lparr>status := ''completed'', output_files := outs, progress := 100\<rparr>
              else j1\<lparr>status := ''failed'', error_message := Some message\<rparr>))"

definition fail_unexpected :: "pyexc \<Rightarrow> datetime \<Rightarrow> TranscriptionJob \<Rightarrow> TranscriptionJob" where
  "fail_unexpected e t j =
     j\<lparr>status := ''failed'',
       error_message := Some (''Unexpected error: '' @ exc_str e @ [CHR 0x0A] @ exc_trace e),
       end_time := Some t\<rparr>"

definition process_transcription_job ::
  "string \<Rightarrow> backend_run \<Rightarrow> datetime \<Rightarrow> server \<Rightarrow> pyexc option \<times> server" where
  "process_transcription_job jid run t st =
     (case map_of (transcription_jobs st) jid of
        None \<Rightarrow> (None, st)
      | Some job \<Rightarrow>
          let st1 = mutate_job jid (\<lambda>j. j\<lparr>status := ''processing''\<rparr>) st;
              (r, st2) =
                (if engine job = ''autosub''
                 then transcribe_with_autosub (filename job) (language job) jid run st1
                 else if engine job = ''whisper''
                 then transcribe_with_whisper (filename job) (language job) jid ''base'' run st1
                 else (Inr (False, ''Unknown transcription engine: '' @ engine job, []), st1))
          in case r of
               Inr res \<Rightarrow> (None, mutate_job jid (finish_job res t) st2)
             | Inl e \<Rightarrow>
                 if is_Exception e then (None, mutate_job jid (fail_unexpected e t) st2)
                 else (Some e, st2))"

section \<open>The HTTP handlers\<close>

text \<open>
  A response is the body and the status code. A body of \<^verbatim>\<open>jsonify\<close> is one constructor for
  each shape the handlers build; \<open>JobDict\<close> carries the ten fields of \<^verbatim>\<open>to_dict\<close>.
\<close>

datatype body =
    JsonError string
  | JsonCreated string string string
  | JobDict TranscriptionJob
  | JobList "body list" nat
  | JsonMessage string
  | JsonHealth string datetime string
  | Attachment string

type_synonym response = "body \<times> nat"

definition to_dict :: "TranscriptionJob \<Rightarrow> body" where
  "to_dict j = JobDict j"

definition health_check :: "datetime \<Rightarrow> response" where
  "health_check t = (JsonHealth ''healthy'' t ''1.0.0'', 200)"

text \<open>
  A request to \<^verbatim>\<open>POST /transcribe\<close>: the name of the uploaded file when the part
  \<^verbatim>\<open>file\<close> is there, and the form fields. What the environment decides while it is
  served: \<^verbatim>\<open>secure_filename\<close> of the name, the two \<^verbatim>\<open>uuid4().hex\<close> values, what
  \<^verbatim>\<open>file.save\<close> raises, the entry it leaves on the disk and the time. An exception out of
  a view function is answered by Flask through the handler of 500 (line 416). The limit
  on the size of a request is Flask's own check, set up only when the module is run as
  the main program (line 427), and is not part of the handler.
\<close>

record request =
  req_file :: "string option"
  req_form :: "(string \<times> string) list"

record upload_env =
  secured_name :: string
  file_uuid_hex :: string
  job_uuid_hex :: string
  save_fault :: "pyexc option"
  saved_entry :: fentry
  env_now :: datetime

definition internal_error :: response where
  "internal_error = (JsonError ''Internal server error'', 500)"

definition form_get :: "(string \<times> string) list \<Rightarrow> string \<Rightarrow> string \<Rightarrow> string" where
  "form_get form k dflt = (case map_of form k of Some v \<Rightarrow> v | None \<Rightarrow> dflt)"

text \<open>Lines 269 to 271: the engine, the language and the model of a request.\<close>

definition get_parameters :: "(string \<times> string) list \<Rightarrow> string \<times> string \<times> string" where
  "get_parameters form =
     (str_lower (form_get form ''engine'' ''whisper''),
      form_get form ''language'' ''en'',
      form_get form ''model'' ''base'')"

definition supported_formats :: string where
  "supported_formats =
     ''mp3, wav, m4a, flac, ogg, aac, mp4, avi, mkv, mov, wmv, flv, webm, ogv''"

definition transcribe_file :: "request \<Rightarrow> upload_env \<Rightarrow> server \<Rightarrow> server \<times> response" where
  "transcribe_file rq env st =
     (case req_file rq of
        None \<Rightarrow> (st, (JsonError ''No file provided'', 400))
      | Some fname \<Rightarrow>
          if fname = [] then (st, (JsonError ''No file selected'', 400))
          else if \<not> allowed_file fname
          then (st, (JsonError (''File type not allowed. Supported formats: '' @ supported_formats), 400))
          else
            (case get_parameters (req_form rq) of
               (eng, lang, model) \<Rightarrow>
                 if eng \<notin> set [''autosub'', ''whisper'']
                 then (st, (JsonError ''Invalid engine. Use \"autosub\" or \"whisper\"'', 400))
                 else if save_fault env \<noteq> None then (st, internal_error)
                 else
                   (let unique_filename = file_uuid_hex env @ ''_'' @ secured_name env;
                        file_path = os_path_join UPLOAD_FOLDER unique_filename;
                        st1 = st\<lparr>fs := (fs st)\<lparr>files :=
                                AList.update file_path (saved_entry env) (files (fs st))\<rparr>\<rparr>;
                        (jid, st2) = get_next_job_id (job_uuid_hex env) st1;
                        job = TranscriptionJob_init jid file_path eng lang (env_now env);
                        st3 = st2\<lparr>transcription_jobs := AList.update jid job (transcription_jobs st2)\<rparr>;
                        st4 = st3\<lparr>threads := threads st3 @ [jid]\<rparr>
                    in (st4, (JsonCreated jid ''pending''
                                (''Transcription job created. Use /status/'' @ jid @ '' to check progress.''),
                              202)))))"

definition get_job_status :: "string \<Rightarrow> server \<Rightarrow> response" where
  "get_job_status jid st =
     (case map_of (transcription_jobs st) jid of
        None \<Rightarrow> (JsonError ''Job not found'', 404)
      | Some j \<Rightarrow> (to_dict j, 200))"

text \<open>
  \<^verbatim>\<open>send_file(file_path, as_attachment=True)\<close> for a path that exists: the file as an
  attachment, or an exception, answered with 500, when the path is a directory.
\<close>

definition send_file :: "string \<Rightarrow> disk \<Rightarrow> response" where
  "send_file file_path d =
     (if map_of (files d) file_path \<noteq> None then (Attachment file_path, 200) else internal_error)"

definition download_file :: "string \<Rightarrow> string \<Rightarrow> server \<Rightarrow> response" where
  "download_file jid file_type st =
     (case map_of (transcription_jobs st) jid of
        None \<Rightarrow> (JsonError ''Job not found'', 404)
      | Some job \<Rightarrow>
          if status job \<noteq> ''completed'' then (JsonError ''Job not completed yet'', 400)
          else if file_type \<notin> set [''srt'', ''txt'']
          then (JsonError ''Invalid file type. Use \"srt\" or \"txt\"'', 400)
          else
            (let file_key = file_type @ ''_file''
             in case map_of (output_files job) file_key of
                  None \<Rightarrow> (JsonError (map char_upper file_type @ '' file not found''), 404)
                | Some file_path \<Rightarrow>
                    if \<not> os_path_exists file_path (fs st)
                    then (JsonError ''File not found on disk'', 404)
                    else send_file file_path (fs st)))"

definition list_jobs :: "server \<Rightarrow> response" where
  "list_jobs st =
     (let jobs = map (\<lambda>kj. to_dict (snd kj)) (transcription_jobs st)
      in (JobList jobs (length jobs), 200))"

text \<open>\<^verbatim>\<open>delete_job\<close>: a removal that raises is reported on \<^verbatim>\<open>stdout\<close> and skipped.\<close>

definition remove_if_exists :: "string \<Rightarrow> disk \<Rightarrow> disk" where
  "remove_if_exists p d =
     (if os_path_exists p d then (case os_remove p d of Inl e \<Rightarrow> d | Inr d' \<Rightarrow> d') else d)"

definition delete_job :: "string \<Rightarrow> server \<Rightarrow> server \<times> response" where
  "delete_job jid st =
     (case map_of (transcription_jobs st) jid of
        None \<Rightarrow> (st, (JsonError ''Job not found'', 404))
      | Some job \<Rightarrow>
          let d1 = fold remove_if_exists (map snd (output_files job)) (fs st);
              d2 = remove_if_exists (filename job) d1
          in (st\<lparr>fs := d2, transcription_jobs := AList.delete jid (transcription_jobs st)\<rparr>,
              (JsonMessage ''Job deleted successfully'', 200)))"

section \<open>The retention sweep\<close>

text \<open>
  \<^verbatim>\<open>(current_time - t).total_seconds() > max_age_hours * 3600\<close>, on microseconds.
\<close>

definition older_than :: "int \<Rightarrow> datetime \<Rightarrow> datetime \<Rightarrow> bool" where
  "older_than max_age_hours current_time t = (current_time - t > max_age_hours * 3600 * 1000000)"

text \<open>The inner loop of lines 380 to 388 over the names \<^verbatim>\<open>os.listdir\<close> returned.\<close>

fun sweep_files :: "int \<Rightarrow> datetime \<Rightarrow> string \<Rightarrow> string list \<Rightarrow> disk \<Rightarrow> int \<Rightarrow> disk \<times> int" where
  "sweep_files m now folder [] d n = (d, n)"
| "sweep_files m now folder (name # names) d n =
     (let file_path = os_path_join folder name
      in case os_path_getctime file_path d of
           Inl e \<Rightarrow> sweep_files m now folder names d n
         | Inr file_time \<Rightarrow>
             if older_than m now file_time
             then (case os_remove file_path d of
                     Inl e \<Rightarrow> sweep_files m now folder names d n
                   | Inr d' \<Rightarrow> sweep_files m now folder names d' (n + 1))
             else sweep_files m now folder names d n)"

text \<open>The outer loop: a listing that raises leaves the loop for the handler of line 403.\<close>

fun sweep_folders :: "int \<Rightarrow> datetime \<Rightarrow> string list \<Rightarrow> disk \<Rightarrow> int \<Rightarrow> disk \<times> (pyexc + int)" where
  "sweep_folders m now [] d n = (d, Inr n)"
| "sweep_folders m now (folder # folders) d n =
     (case os_listdir folder d of
        Inl e \<Rightarrow> (d, Inl e)
      | Inr names \<Rightarrow>
          (case sweep_files m now folder names d n of
             (d', n') \<Rightarrow> sweep_folders m now folders d' n'))"

text \<open>Lines 391 to 397: the identifiers to remove, then \<^verbatim>\<open>del\<close> for each; \<^verbatim>\<open>del\<close> of a
  missing key raises \<^verbatim>\<open>KeyError\<close>.\<close>

definition jobs_to_remove :: "int \<Rightarrow> datetime \<Rightarrow> (string \<times> TranscriptionJob) list \<Rightarrow> string list" where
  "jobs_to_remove m now jobs =
     map fst (filter (\<lambda>kj. case end_time (snd kj) of
                              None \<Rightarrow> False
                            | Some t \<Rightarrow> older_than m now t) jobs)"

fun del_jobs ::
  "string list \<Rightarrow> (string \<times> TranscriptionJob) list \<Rightarrow> (string \<times> TranscriptionJob) list \<times> pyexc option" where
  "del_jobs [] jobs = (jobs, None)"
| "del_jobs (k # ks) jobs =
     (if map_of jobs k = None then (jobs, Some (PyExc k []))
      else del_jobs ks (AList.delete k jobs))"

text \<open>
  The body of \<^verbatim>\<open>cleanup_old_files\<close> with the local \<^verbatim>\<open>max_age_hours\<close> as an argument, and
  the handler itself, where it is the constant 24.
\<close>

definition cleanup_with :: "int \<Rightarrow> datetime \<Rightarrow> server \<Rightarrow> server \<times> response" where
  "cleanup_with max_age_hours current_time st =
     (case sweep_folders max_age_hours current_time [UPLOAD_FOLDER, OUTPUT_FOLDER] (fs st) 0 of
        (d, Inl e) \<Rightarrow> (st\<lparr>fs := d\<rparr>, (JsonError (''Cleanup failed: '' @ exc_str e), 500))
      | (d, Inr cleaned_files) \<Rightarrow>
          let to_remove = jobs_to_remove max_age_hours current_time (transcription_jobs st)
          in case del_jobs to_remove (transcription_jobs st) of
               (jobs, Some e) \<Rightarrow>
                 (st\<lparr>fs := d, transcription_jobs := jobs\<rparr>,
                  (JsonError (''Cleanup failed: '' @ exc_str e), 500))
             | (jobs, None) \<Rightarrow>
                 (st\<lparr>fs := d, transcription_jobs := jobs\<rparr>,
                  (JsonMessage (''Cleanup completed. Removed '' @ str_int cleaned_files
                                @ '' files and '' @ str_int (int (length to_remove)) @ '' jobs.''),
                   200)))"

definition cleanup_old_files :: "datetime \<Rightarrow> server \<Rightarrow> server \<times> response" where
  "cleanup_old_files current_time st = cleanup_with 24 current_time st"

section \<open>Runs of the server\<close>

text \<open>
  What can happen to the process: a request to one of the endpoints, or a worker thread
  started by \<^verbatim>\<open>transcribe_file\<close> running \<^verbatim>\<open>process_transcription_job\<close> with its job id. A
  worker runs once, for an identifier a thread was started with; an exception that
  leaves \<^verbatim>\<open>process_transcription_job\<close> ends the thread and nothing else.
\<close>

datatype event =
    POST_transcribe request upload_env
  | Worker string backend_run datetime
  | GET_status string
  | GET_download string string
  | GET_jobs
  | DELETE_jobs string
  | POST_cleanup datetime
  | GET_health datetime

definition run_worker :: "string \<Rightarrow> backend_run \<Rightarrow> datetime \<Rightarrow> server \<Rightarrow> server" where
  "run_worker jid run t st =
     (if jid \<in> set (threads st)
      then snd (process_transcription_job jid run t (st\<lparr>threads := remove1 jid (threads st)\<rparr>))
      else st)"

fun step :: "event \<Rightarrow> server \<Rightarrow> server \<times> response option" where
  "step (POST_transcribe rq env) st = (case transcribe_file rq env st of (st', r) \<Rightarrow> (st', Some r))"
| "step (Worker jid run t) st = (run_worker jid run t st, None)"
| "step (GET_status jid) st = (st, Some (get_job_status jid st))"
| "step (GET_download jid file_type) st = (st, Some (download_file jid file_type st))"
| "step GET_jobs st = (st, Some (list_jobs st))"
| "step (DELETE_jobs jid) st = (case delete_job jid st of (st', r) \<Rightarrow> (st', Some r))"
| "step (POST_cleanup t) st = (case cleanup_old_files t st of (st', r) \<Rightarrow> (st', Some r))"
| "step (GET_health t) st = (st, Some (health_check t))"

fun exec :: "event list \<Rightarrow> server \<Rightarrow> server" where
  "exec [] st = st"
| "exec (e # es) st = exec es (fst (step e st))"

text \<open>The identifiers the server has handed out during a run, in order.\<close>

fun issued_id :: "response option \<Rightarrow> string list" where
  "issued_id (Some (JsonCreated jid s m, code)) = [jid]"
| "issued_id r = []"

fun issued_ids :: "event list \<Rightarrow> server \<Rightarrow> string list" where
  "issued_ids [] st = []"
| "issued_ids (e # es) st = issued_id (snd (step e st)) @ issued_ids es (fst (step e st))"

text \<open>\<^verbatim>\<open>uuid.uuid4().hex\<close> is thirty-two hexadecimal digits.\<close>

definition uuid4_hex :: "string \<Rightarrow> bool" where
  "uuid4_hex h = (length h = 32 \<and> list_all (\<lambda>c. c \<in> set ''0123456789abcdef'') h)"

fun wf_event :: "event \<Rightarrow> bool" where
  "wf_event (POST_transcribe rq env) = (uuid4_hex (file_uuid_hex env) \<and> uuid4_hex (job_uuid_hex env))"
| "wf_event e = True"

section \<open>Vocabulary of the properties\<close>

text \<open>
  What the backend calls made for an engine did during a run, in the order the two
  adapters make them: an exception out of one of them, the cancellation sentinel
  \<^verbatim>\<open>-1\<close> or another false value out of \<^verbatim>\<open>generate_subtitles\<close>, or success.
\<close>

datatype backend_report = Raised pyexc | Cancelled | Failure | Success

definition backend_report :: "string \<Rightarrow> backend_run \<Rightarrow> backend_report" where
  "backend_report eng run =
     (case init_fault run of
        Some e \<Rightarrow> Raised e
      | None \<Rightarrow>
          (case gen_outcome run of
             Inl e \<Rightarrow> Raised e
           | Inr v \<Rightarrow>
               if py_eq_int v (- 1) then Cancelled
               else if \<not> py_truthy v then Failure
               else if eng = ''autosub''
               then (case extract_fault run of Some e \<Rightarrow> Raised e | None \<Rightarrow> Success)
               else Success))"

text \<open>
  A run whose fault no handler catches, and what an adapter hands back for each report
  (the second is used in the proofs only).
\<close>

definition uncaught :: "string \<Rightarrow> backend_run \<Rightarrow> bool" where
  "uncaught eng run = (case backend_report eng run of Raised e \<Rightarrow> \<not> is_Exception e | _ \<Rightarrow> False)"

definition adapter_outcome :: "string \<Rightarrow> string \<Rightarrow> backend_run \<Rightarrow> pyexc + backend_result" where
  "adapter_outcome eng file_path run =
     (case backend_report eng run of
        Raised e \<Rightarrow>
          if is_Exception e
          then Inr (False, if eng = ''autosub'' then autosub_error e else whisper_error e, [])
          else Inl e
      | Cancelled \<Rightarrow> Inr (False, ''Transcription was cancelled'', [])
      | Failure \<Rightarrow> Inr (False, ''Failed to generate subtitles'', [])
      | Success \<Rightarrow> Inr (check_created file_path (disk_after run)))"

text \<open>
  The values stored as the progress of job \<open>jid\<close> after each of a sequence of reports, and
  what the specification asks of them: between 0 and 100, never decreasing.
\<close>

fun progress_trace :: "string \<Rightarrow> (string \<times> int) list \<Rightarrow> server \<Rightarrow> int list" where
  "progress_trace jid [] st = []"
| "progress_trace jid (r # rs) st =
     (let st' = progress_callback jid (fst r) (snd r) st
      in (case map_of (transcription_jobs st') jid of None \<Rightarrow> [] | Some j \<Rightarrow> [progress j])
         @ progress_trace jid rs st')"

definition valid_progress :: "int list \<Rightarrow> bool" where
  "valid_progress ps = (list_all (\<lambda>p. 0 \<le> p \<and> p \<le> 100) ps \<and> sorted ps)"

text \<open>
  A run used to exercise the theorems: one upload for the autosub engine on an empty
  disk, a backend run that succeeds, one that raises an \<^verbatim>\<open>Exception\<close> and one that
  raises \<^verbatim>\<open>SystemExit\<close>.
\<close>

definition demo_disk :: disk where
  "demo_disk = \<lparr>dirs = [], files = []\<rparr>"

definition demo_request :: request where
  "demo_request =
     \<lparr>req_file = Some ''talk.WAV'', req_form = [(''engine'', ''AutoSub'')]\<rparr>"

definition demo_env :: upload_env where
  "demo_env =
     \<lparr>secured_name = ''talk.WAV'', file_uuid_hex = ''0123456789abcdef0123456789abcdef'',
      job_uuid_hex = ''89abcdef0123456789abcdef01234567'', save_fault = None,
      saved_entry = \<lparr>fe_ctime = 1000000, fe_removable = True\<rparr>, env_now = 1000000\<rparr>"

definition demo_id :: string where
  "demo_id = ''job_1_89abcdef''"

definition demo_upload :: string where
  "demo_upload = ''uploads/0123456789abcdef0123456789abcdef_talk.WAV''"

definition demo_srt :: string where
  "demo_srt = ''outputs/0123456789abcdef0123456789abcdef_talk.srt''"

definition demo_txt :: string where
  "demo_txt = ''outputs/0123456789abcdef0123456789abcdef_talk.txt''"

definition demo_job :: TranscriptionJob where
  "demo_job = TranscriptionJob_init demo_id demo_upload ''autosub'' ''en'' 1000000"

definition demo_pending :: server where
  "demo_pending =
     \<lparr>transcription_jobs = [(demo_id, demo_job)], job_counter = 1,
      fs = \<lparr>dirs = [''uploads'', ''outputs''],
            files = [(demo_upload, \<lparr>fe_ctime = 1000000, fe_removable = True\<rparr>)]\<rparr>,
      threads = [demo_id]\<rparr>"

definition demo_disk_done :: disk where
  "demo_disk_done =
     \<lparr>dirs = [''uploads'', ''outputs''],
      files = [(demo_upload, \<lparr>fe_ctime = 1000000, fe_removable = True\<rparr>),
               (demo_srt, \<lparr>fe_ctime = 5000000, fe_removable = True\<rparr>),
               (demo_txt, \<lparr>fe_ctime = 6000000, fe_removable = True\<rparr>)]\<rparr>"

definition demo_run_ok :: backend_run where
  "demo_run_ok =
     \<lparr>init_fault = None,
      reports = [(''Converting speech regions to FLAC files: '', 100),
                 (''Performing speech recognition: '', 40)],
      gen_outcome = Inr (PyStr demo_srt), extract_fault = None, disk_after = demo_disk_done\<rparr>"

definition demo_exc :: pyexc where
  "demo_exc = PyExc ''connection reset'' ''Traceback (most recent call last): ...''"

definition demo_run_raise :: backend_run where
  "demo_run_raise =
     \<lparr>init_fault = None, reports = [(''Converting speech regions to FLAC files: '', 100)],
      gen_outcome = Inl demo_exc, extract_fault = None,
      disk_after = fs demo_pending\<rparr>"

definition demo_exit :: pyexc where
  "demo_exit = PyBaseExc ''1'' ''SystemExit: 1''"

definition demo_run_exit :: backend_run where
  "demo_run_exit =
     \<lparr>init_fault = None, reports = [(''Converting speech regions to FLAC files: '', 100)],
      gen_outcome = Inl demo_exit, extract_fault = None,
      disk_after = fs demo_pending\<rparr>"

definition demo_processing :: server where
  "demo_processing = mutate_job demo_id (\<lambda>j. j\<lparr>status := ''processing''\<rparr>) demo_pending"

text \<open>
  What the dispatcher does to a stored job, in one equation: the outcome of the adapter
  decides between the regular end, the dispatcher's own handler and the escape.
\<close>

definition dispatch_outcome :: "TranscriptionJob \<Rightarrow> backend_run \<Rightarrow> pyexc + backend_result" where
  "dispatch_outcome job run =
     (if engine job = ''autosub'' \<or> engine job = ''whisper''
      then adapter_outcome (engine job) (filename job) run
      else Inr (False, ''Unknown transcription engine: '' @ engine job, []))"

definition reported_progress :: "TranscriptionJob \<Rightarrow> backend_run \<Rightarrow> int" where
  "reported_progress job run =
     (if engine job = ''autosub'' \<and> init_fault run = None \<and> reports run \<noteq> []
      then snd (last (reports run)) else progress job)"

text \<open>
  The extension of a file name, as the specification speaks of it: what follows the last
  dot, and nothing when there is no dot. A spelling of a lower-case name is the name
  with any of its letters in upper case.
\<close>

inductive has_extension :: "string \<Rightarrow> string \<Rightarrow> bool" where
  dotted: "CHR ''.'' \<notin> set ext \<Longrightarrow> has_extension (base @ ''.'' @ ext) ext"
| plain: "CHR ''.'' \<notin> set fname \<Longrightarrow> has_extension fname []"

definition spelling_of :: "string \<Rightarrow> string \<Rightarrow> bool" where
  "spelling_of name s = list_all2 (\<lambda>c d. c = d \<or> c = char_upper d) s name"

definition demo_bare_request :: request where
  "demo_bare_request = \<lparr>req_file = Some ''talk.wav'', req_form = []\<rparr>"

definition demo_env_full :: upload_env where
  "demo_env_full =
     demo_env\<lparr>save_fault := Some (PyExc ''[Errno 28] No space left on device'' [])\<rparr>"

section \<open>Lookup after the operations\<close>

lemma lookup_mutate_job:
  "map_of (transcription_jobs (mutate_job jid f st)) k =
     (if k = jid then map_option f (map_of (transcription_jobs st) jid)
      else map_of (transcription_jobs st) k)"
  by (simp add: mutate_job_def update_conv' split: option.splits)

lemma mutate_job_other [simp]:
  "fs (mutate_job jid f st) = fs st"
  "threads (mutate_job jid f st) = threads st"
  "job_counter (mutate_job jid f st) = job_counter st"
  by (simp_all add: mutate_job_def split: option.splits)

lemma progress_callback_mutate:
  "progress_callback jid task p st = mutate_job jid (\<lambda>j. j\<lparr>progress := p\<rparr>) st"
  by (simp add: progress_callback_def mutate_job_def)

lemma lookup_progress_callback:
  "map_of (transcription_jobs (progress_callback jid task p st)) k =
     (if k = jid then map_option (\<lambda>j. j\<lparr>progress := p\<rparr>) (map_of (transcription_jobs st) jid)
      else map_of (transcription_jobs st) k)"
  by (cases "map_of (transcription_jobs st) jid")
     (simp_all add: progress_callback_mutate lookup_mutate_job)

lemma progress_callback_other [simp]:
  "fs (progress_callback jid task p st) = fs st"
  "threads (progress_callback jid task p st) = threads st"
  "job_counter (progress_callback jid task p st) = job_counter st"
  by (simp_all add: progress_callback_mutate)

lemma lookup_fold_progress:
  "map_of (transcription_jobs (fold (\<lambda>r. progress_callback jid (fst r) (snd r)) reps st)) k =
     (if k = jid
      then map_option (\<lambda>j. j\<lparr>progress := (if reps = [] then progress j else snd (last reps))\<rparr>)
             (map_of (transcription_jobs st) jid)
      else map_of (transcription_jobs st) k)"
proof (induction reps arbitrary: st)
  case Nil
  show ?case by (cases "map_of (transcription_jobs st) jid") simp_all
next
  case (Cons r reps)
  show ?case
    by (cases "map_of (transcription_jobs st) jid")
       (simp_all add: Cons.IH lookup_progress_callback)
qed

lemma fold_progress_other [simp]:
  "fs (fold (\<lambda>r. progress_callback jid (fst r) (snd r)) reps st) = fs st"
  "threads (fold (\<lambda>r. progress_callback jid (fst r) (snd r)) reps st) = threads st"
  "job_counter (fold (\<lambda>r. progress_callback jid (fst r) (snd r)) reps st) = job_counter st"
  by (induction reps arbitrary: st) simp_all

lemma autosub_result:
  "fst (transcribe_with_autosub file_path lang jid run st) = adapter_outcome ''autosub'' file_path run"
  by (simp add: transcribe_with_autosub_def adapter_outcome_def backend_report_def
      autosub_handler_def Let_def split: option.splits sum.splits)

lemma whisper_result:
  "fst (transcribe_with_whisper file_path lang jid model run st) =
     adapter_outcome ''whisper'' file_path run"
  by (simp add: transcribe_with_whisper_def adapter_outcome_def backend_report_def
      whisper_handler_def Let_def split: option.splits sum.splits)

lemma autosub_lookup:
  "map_of (transcription_jobs (snd (transcribe_with_autosub file_path lang jid run st))) k =
     (if k = jid \<and> init_fault run = None
      then map_option (\<lambda>j. j\<lparr>progress := (if reports run = [] then progress j
                                              else snd (last (reports run)))\<rparr>)
             (map_of (transcription_jobs st) jid)
      else map_of (transcription_jobs st) k)"
  by (simp add: transcribe_with_autosub_def Let_def lookup_fold_progress
      split: option.splits sum.splits)

lemma whisper_jobs:
  "transcription_jobs (snd (transcribe_with_whisper file_path lang jid model run st)) =
     transcription_jobs st"
  by (simp add: transcribe_with_whisper_def Let_def split: option.splits sum.splits)

lemma adapter_threads [simp]:
  "threads (snd (transcribe_with_autosub file_path lang jid run st)) = threads st"
  "threads (snd (transcribe_with_whisper file_path lang jid model run st)) = threads st"
  "job_counter (snd (transcribe_with_autosub file_path lang jid run st)) = job_counter st"
  "job_counter (snd (transcribe_with_whisper file_path lang jid model run st)) = job_counter st"
  by (simp_all add: transcribe_with_autosub_def transcribe_with_whisper_def Let_def
      split: option.splits sum.splits)

lemma adapter_outcome_Inl:
  "adapter_outcome eng file_path run = Inl e \<longleftrightarrow>
     backend_report eng run = Raised e \<and> \<not> is_Exception e"
  by (auto simp: adapter_outcome_def split: backend_report.splits)

lemma process_job_result:
  assumes "map_of (transcription_jobs st) jid = Some job"
  shows "fst (process_transcription_job jid run t st) =
           (case dispatch_outcome job run of
              Inr res \<Rightarrow> None
            | Inl e \<Rightarrow> if is_Exception e then None else Some e)"
    and "map_of (transcription_jobs (snd (process_transcription_job jid run t st))) jid =
           Some ((case dispatch_outcome job run of
                    Inr res \<Rightarrow> finish_job res t
                  | Inl e \<Rightarrow> if is_Exception e then fail_unexpected e t else (\<lambda>j. j))
                 (job\<lparr>status := ''processing'', progress := reported_progress job run\<rparr>))"
proof -
  let ?st1 = "mutate_job jid (\<lambda>j. j\<lparr>status := ''processing''\<rparr>) st"
  let ?j1 = "job\<lparr>status := ''processing'', progress := reported_progress job run\<rparr>"
  have st1: "map_of (transcription_jobs ?st1) jid = Some (job\<lparr>status := ''processing''\<rparr>)"
    using assms by (simp add: lookup_mutate_job)
  obtain r st2 where call:
    "(if engine job = ''autosub''
      then transcribe_with_autosub (filename job) (language job) jid run ?st1
      else if engine job = ''whisper''
      then transcribe_with_whisper (filename job) (language job) jid ''base'' run ?st1
      else (Inr (False, ''Unknown transcription engine: '' @ engine job, []), ?st1)) = (r, st2)"
    by (cases "if engine job = ''autosub''
      then transcribe_with_autosub (filename job) (language job) jid run ?st1
      else if engine job = ''whisper''
      then transcribe_with_whisper (filename job) (language job) jid ''base'' run ?st1
      else (Inr (False, ''Unknown transcription engine: '' @ engine job, []), ?st1)")
  have r: "r = dispatch_outcome job run"
    using call autosub_result [of "filename job" "language job" jid run ?st1]
      whisper_result [of "filename job" "language job" jid "''base''" run ?st1]
    by (auto simp: dispatch_outcome_def split: if_splits)
  have st2: "map_of (transcription_jobs st2) jid = Some ?j1"
  proof -
    consider (a) "engine job = ''autosub''" | (w) "engine job = ''whisper''"
      | (u) "engine job \<noteq> ''autosub''" "engine job \<noteq> ''whisper''"
      by blast
    then show ?thesis
    proof cases
      case a
      then have "st2 = snd (transcribe_with_autosub (filename job) (language job) jid run ?st1)"
        using call by simp
      then show ?thesis
        using a st1 by (simp add: autosub_lookup reported_progress_def)
    next
      case w
      then have "st2 = snd (transcribe_with_whisper (filename job) (language job) jid ''base'' run ?st1)"
        using call by simp
      then show ?thesis
        using w st1 by (simp add: whisper_jobs reported_progress_def)
    next
      case u
      then show ?thesis
        using call st1 by (auto simp: reported_progress_def)
    qed
  qed
  have unfold: "process_transcription_job jid run t st =
      (case r of
         Inr res \<Rightarrow> (None, mutate_job jid (finish_job res t) st2)
       | Inl e \<Rightarrow> if is_Exception e then (None, mutate_job jid (fail_unexpected e t) st2)
                  else (Some e, st2))"
    using assms call by (simp add: process_transcription_job_def Let_def)
  show "fst (process_transcription_job jid run t st) =
           (case dispatch_outcome job run of
              Inr res \<Rightarrow> None
            | Inl e \<Rightarrow> if is_Exception e then None else Some e)"
    unfolding unfold r by (simp split: sum.splits)
  show "map_of (transcription_jobs (snd (process_transcription_job jid run t st))) jid =
           Some ((case dispatch_outcome job run of
                    Inr res \<Rightarrow> finish_job res t
                  | Inl e \<Rightarrow> if is_Exception e then fail_unexpected e t else (\<lambda>j. j))
                 ?j1)"
    unfolding unfold r [symmetric] using st2
    by (simp add: lookup_mutate_job split: sum.splits)
qed

lemma process_job_lookup_other:
  "k \<noteq> jid \<Longrightarrow> map_of (transcription_jobs (snd (process_transcription_job jid run t st))) k =
     map_of (transcription_jobs st) k"
proof (cases "map_of (transcription_jobs st) jid")
  case None
  then show ?thesis by (simp add: process_transcription_job_def)
next
  case (Some job)
  assume k: "k \<noteq> jid"
  let ?st1 = "mutate_job jid (\<lambda>j. j\<lparr>status := ''processing''\<rparr>) st"
  have a: "map_of (transcription_jobs (snd (transcribe_with_autosub (filename job) (language job) jid run ?st1))) k
            = map_of (transcription_jobs st) k"
    using k by (simp add: autosub_lookup lookup_mutate_job)
  have w: "map_of (transcription_jobs (snd (transcribe_with_whisper (filename job) (language job) jid ''base'' run ?st1))) k
            = map_of (transcription_jobs st) k"
    using k by (simp add: whisper_jobs lookup_mutate_job)
  show ?thesis
    using Some k a w
    by (simp add: process_transcription_job_def Let_def lookup_mutate_job split: prod.splits)
       (auto simp: lookup_mutate_job split: sum.splits)
qed

lemma finish_job_fields:
  "status (finish_job (ok, msg, outs) t j) = (if ok then ''completed'' else ''failed'')"
  "end_time (finish_job (ok, msg, outs) t j) = Some t"
  "error_message (finish_job (ok, msg, outs) t j) = (if ok then error_message j else Some msg)"
  "output_files (finish_job (ok, msg, outs) t j) = (if ok then outs else output_files j)"
  "job_id (finish_job r t j) = job_id j"
  by (simp_all add: finish_job_def Let_def split: prod.splits)

lemma check_created_ok:
  "fst (check_created file_path d) =
     (os_path_exists (output_srt_of file_path) d \<and> os_path_exists (output_txt_of file_path) d)"
  by (simp add: check_created_def)

lemma demo_lookup: "map_of (transcription_jobs demo_pending) demo_id = Some demo_job"
  by (simp add: demo_pending_def)

section \<open>Validation of a request\<close>

lemma rsplit_dot1_ext:
  assumes "CHR ''.'' \<notin> set ext"
  shows "rsplit_dot1 (base @ ''.'' @ ext) ! 1 = ext"
proof -
  have "takeWhile (\<lambda>c. c \<noteq> CHR ''.'') (rev ext @ CHR ''.'' # rev base) = rev ext"
    using assms by (subst takeWhile_append2) auto
  then show ?thesis
    by (simp add: rsplit_dot1_def)
qed

lemma allowed_file_ext:
  assumes "has_extension fname ext"
  shows "allowed_file fname =
           (str_lower ext \<in> ALLOWED_EXTENSIONS ''audio'' \<union> ALLOWED_EXTENSIONS ''video'')"
  using assms
proof cases
  case (dotted base)
  then show ?thesis
    using rsplit_dot1_ext [of ext base] by (simp add: allowed_file_def Let_def)
next
  case plain
  then show ?thesis
    by (simp add: allowed_file_def Let_def str_lower_def ALLOWED_EXTENSIONS_def)
qed

lemma allowed_extensions:
  "ALLOWED_EXTENSIONS ''audio'' \<union> ALLOWED_EXTENSIONS ''video'' =
     {''mp3'', ''wav'', ''m4a'', ''flac'', ''ogg'', ''aac'',
      ''mp4'', ''avi'', ''mkv'', ''mov'', ''wmv'', ''flv'', ''webm'', ''ogv''}"
  by (simp add: ALLOWED_EXTENSIONS_def insert_commute)

lemma allowed_file_nonempty: "allowed_file fname \<Longrightarrow> fname \<noteq> []"
  by (auto simp: allowed_file_def ALLOWED_EXTENSIONS_def)

lemma char_lower_letter:
  "d \<in> set ascii_lowercase \<Longrightarrow> char_lower d = d \<and> char_lower (char_upper d) = d"
proof -
  have "list_all (\<lambda>d. char_lower d = d \<and> char_lower (char_upper d) = d) ascii_lowercase"
    by code_simp
  then show "d \<in> set ascii_lowercase \<Longrightarrow> char_lower d = d \<and> char_lower (char_upper d) = d"
    by (simp add: list_all_iff)
qed

lemma str_lower_spelling:
  assumes "spelling_of name s" "set name \<subseteq> set ascii_lowercase"
  shows "str_lower s = name"
proof -
  have "list_all2 (\<lambda>c d. c = d \<or> c = char_upper d) s name \<Longrightarrow> set name \<subseteq> set ascii_lowercase
          \<Longrightarrow> map char_lower s = name"
    by (induction rule: list_all2_induct) (auto simp: char_lower_letter)
  then show ?thesis
    using assms by (simp add: spelling_of_def str_lower_def)
qed

lemma engine_names_lowercase:
  "set ''autosub'' \<subseteq> set ascii_lowercase" "set ''whisper'' \<subseteq> set ascii_lowercase"
  by (simp_all add: ascii_lowercase_def)

lemma transcribe_file_accepted:
  assumes "req_file rq = Some fname" "allowed_file fname"
    and "get_parameters (req_form rq) = (eng, lang, model)"
    and "eng = ''autosub'' \<or> eng = ''whisper''" "save_fault env = None"
  shows "transcribe_file rq env st =
     (st\<lparr>fs := (fs st)\<lparr>files := AList.update
                   (os_path_join UPLOAD_FOLDER (file_uuid_hex env @ ''_'' @ secured_name env))
                   (saved_entry env) (files (fs st))\<rparr>,
         job_counter := job_counter st + 1,
         transcription_jobs := AList.update (job_id_string (job_counter st + 1) (job_uuid_hex env))
           (TranscriptionJob_init (job_id_string (job_counter st + 1) (job_uuid_hex env))
              (os_path_join UPLOAD_FOLDER (file_uuid_hex env @ ''_'' @ secured_name env))
              eng lang (env_now env))
           (transcription_jobs st),
         threads := threads st @ [job_id_string (job_counter st + 1) (job_uuid_hex env)]\<rparr>,
      (JsonCreated (job_id_string (job_counter st + 1) (job_uuid_hex env)) ''pending''
         (''Transcription job created. Use /status/''
            @ job_id_string (job_counter st + 1) (job_uuid_hex env) @ '' to check progress.''),
       202))"
  using assms allowed_file_nonempty [OF assms(2)]
  by (auto simp: transcribe_file_def get_next_job_id_def Let_def)

lemma transcribe_file_rejected:
  "snd (snd (transcribe_file rq env st)) \<noteq> 202 \<Longrightarrow> fst (transcribe_file rq env st) = st"
  by (auto simp: transcribe_file_def get_next_job_id_def Let_def internal_error_def
      split: option.splits prod.splits if_splits)

section \<open>The dispatcher\<close>

text \<open>
  Claim C2 as stated fails: a fault that is not an instance of \<^verbatim>\<open>Exception\<close> passes the
  three handlers. When \<^verbatim>\<open>generate_subtitles\<close> raises \<^verbatim>\<open>SystemExit\<close> for the stored job of
  \<open>demo_pending\<close>, the fault leaves \<open>process_transcription_job\<close> and the job is left with
  status \<open>processing\<close>, no error message and no \<open>end_time\<close>.
\<close>

theorem uncaught_fault_counterexample:
  "map_of (transcription_jobs demo_pending) demo_id = Some demo_job \<and>
   backend_report ''autosub'' demo_run_exit = Raised (PyBaseExc ''1'' ''SystemExit: 1'') \<and>
   fst (process_transcription_job demo_id demo_run_exit 7000000 demo_pending)
     = Some (PyBaseExc ''1'' ''SystemExit: 1'') \<and>
   map_option status (map_of (transcription_jobs
       (snd (process_transcription_job demo_id demo_run_exit 7000000 demo_pending))) demo_id)
     = Some ''processing'' \<and>
   map_option end_time (map_of (transcription_jobs
       (snd (process_transcription_job demo_id demo_run_exit 7000000 demo_pending))) demo_id)
     = Some None \<and>
   map_option error_message (map_of (transcription_jobs
       (snd (process_transcription_job demo_id demo_run_exit 7000000 demo_pending))) demo_id)
     = Some None"
  by code_simp

text \<open>
  Claim C2, amended to the faults that are instances of \<^verbatim>\<open>Exception\<close>. For a stored job
  and a run in which every fault the backend calls raise is one, nothing leaves
  \<open>process_transcription_job\<close>, the job is not left in \<open>processing\<close> and its \<open>end_time\<close> is
  set; when a backend call raises \<open>e\<close> the job is \<open>failed\<close> and its error message is the
  adapter's, which holds \<open>str(e)\<close>.
\<close>

theorem exception_fault_becomes_failed:
  assumes "map_of (transcription_jobs st) jid = Some job"
    and "engine job = ''autosub'' \<or> engine job = ''whisper'' \<longrightarrow> \<not> uncaught (engine job) run"
  shows "fst (process_transcription_job jid run t st) = None \<and>
         (\<exists>job'. map_of (transcription_jobs (snd (process_transcription_job jid run t st))) jid
                   = Some job' \<and>
           status job' \<noteq> ''processing'' \<and> end_time job' = Some t \<and>
           (\<forall>e. (engine job = ''autosub'' \<or> engine job = ''whisper'') \<and>
                 backend_report (engine job) run = Raised e \<longrightarrow>
                 status job' = ''failed'' \<and>
                 error_message job' =
                   Some ((if engine job = ''autosub'' then ''Autosub'' else ''Whisper'')
                         @ '' transcription failed: '' @ exc_str e @ [CHR 0x0A] @ exc_trace e)))"
proof -
  have "\<exists>ok msg outs. dispatch_outcome job run = Inr (ok, msg, outs) \<and>
          (\<forall>e. (engine job = ''autosub'' \<or> engine job = ''whisper'') \<and>
                 backend_report (engine job) run = Raised e \<longrightarrow>
               \<not> ok \<and> msg = (if engine job = ''autosub'' then ''Autosub'' else ''Whisper'')
                         @ '' transcription failed: '' @ exc_str e @ [CHR 0x0A] @ exc_trace e)"
    using assms(2)
    by (cases "check_created (filename job) (disk_after run)")
       (auto simp: dispatch_outcome_def adapter_outcome_def uncaught_def autosub_error_def
          whisper_error_def split: backend_report.splits)
  then obtain ok msg outs where r: "dispatch_outcome job run = Inr (ok, msg, outs)"
    and raised: "\<And>e. (engine job = ''autosub'' \<or> engine job = ''whisper'') \<and>
                 backend_report (engine job) run = Raised e \<Longrightarrow>
               \<not> ok \<and> msg = (if engine job = ''autosub'' then ''Autosub'' else ''Whisper'')
                         @ '' transcription failed: '' @ exc_str e @ [CHR 0x0A] @ exc_trace e"
    by blast
  show ?thesis
    unfolding process_job_result [OF assms(1)] r
    using raised by (auto simp: finish_job_fields)
qed

theorem exception_fault_becomes_failed_witness:
  "map_of (transcription_jobs demo_pending) demo_id = Some demo_job \<and>
   backend_report ''autosub'' demo_run_raise = Raised demo_exc \<and>
   \<not> uncaught ''autosub'' demo_run_raise \<and>
   fst (process_transcription_job demo_id demo_run_raise 7000000 demo_pending) = None \<and>
   (\<exists>job'. map_of (transcription_jobs
                     (snd (process_transcription_job demo_id demo_run_raise 7000000 demo_pending)))
               demo_id = Some job' \<and>
           status job' = ''failed'' \<and> end_time job' = Some 7000000 \<and>
           error_message job' =
             Some (''Autosub transcription failed: connection reset'' @ [CHR 0x0A]
                   @ ''Traceback (most recent call last): ...''))"
proof -
  have e: "engine demo_job = ''autosub''"
    by (simp add: demo_job_def TranscriptionJob_init_def)
  have r: "backend_report ''autosub'' demo_run_raise = Raised demo_exc"
    by (simp add: backend_report_def demo_run_raise_def)
  have u: "\<not> uncaught ''autosub'' demo_run_raise"
    by (simp add: uncaught_def r demo_exc_def)
  have h: "engine demo_job = ''autosub'' \<or> engine demo_job = ''whisper''
             \<longrightarrow> \<not> uncaught (engine demo_job) demo_run_raise"
    using e u by simp
  show ?thesis
    using exception_fault_becomes_failed [OF demo_lookup h, of 7000000] e r u demo_lookup
    by (auto simp: demo_exc_def)
qed

text \<open>
  Claim C3. A stored job that is dispatched ends \<open>completed\<close> exactly when its engine is
  one of the two, the backend calls report success and both output files exist on the
  disk the backend left. Otherwise it ends \<open>failed\<close>: so for a missing file, an exception,
  the cancellation sentinel or a false result. The one run that ends in neither is
  the run whose fault no handler catches, which leaves the job in \<open>processing\<close>.
\<close>

theorem completed_iff_verified_success:
  assumes "map_of (transcription_jobs st) jid = Some job"
  shows "\<exists>job'. map_of (transcription_jobs (snd (process_transcription_job jid run t st))) jid
                  = Some job' \<and>
           (status job' = ''completed'' \<or> status job' = ''failed'' \<or>
            (engine job = ''autosub'' \<or> engine job = ''whisper'') \<and> uncaught (engine job) run
              \<and> status job' = ''processing'') \<and>
           (status job' = ''completed'' \<longleftrightarrow>
              (engine job = ''autosub'' \<or> engine job = ''whisper'') \<and>
              backend_report (engine job) run = Success \<and>
              os_path_exists (output_srt_of (filename job)) (disk_after run) \<and>
              os_path_exists (output_txt_of (filename job)) (disk_after run))"
proof (cases "dispatch_outcome job run")
  case (Inl e)
  then have "(engine job = ''autosub'' \<or> engine job = ''whisper'') \<and>
      backend_report (engine job) run = Raised e \<and> \<not> is_Exception e"
    by (auto simp: dispatch_outcome_def adapter_outcome_Inl split: if_splits)
  then show ?thesis
    unfolding process_job_result [OF assms] Inl
    by (simp add: uncaught_def)
next
  case (Inr res)
  obtain ok msg outs where res: "res = (ok, msg, outs)"
    by (cases res)
  have ok: "ok = ((engine job = ''autosub'' \<or> engine job = ''whisper'') \<and>
              backend_report (engine job) run = Success \<and>
              os_path_exists (output_srt_of (filename job)) (disk_after run) \<and>
              os_path_exists (output_txt_of (filename job)) (disk_after run))"
    using Inr res check_created_ok [of "filename job" "disk_after run"]
    by (auto simp: dispatch_outcome_def adapter_outcome_def
        split: if_splits backend_report.splits)
  show ?thesis
    unfolding process_job_result [OF assms] Inr res
    using ok by (simp add: finish_job_fields)
qed

theorem completed_iff_verified_success_witness:
  "map_of (transcription_jobs demo_pending) demo_id = Some demo_job \<and>
   backend_report ''autosub'' demo_run_ok = Success \<and>
   os_path_exists demo_srt (disk_after demo_run_ok) \<and>
   os_path_exists demo_txt (disk_after demo_run_ok) \<and>
   (\<exists>job'. map_of (transcription_jobs
                     (snd (process_transcription_job demo_id demo_run_ok 7000000 demo_pending)))
               demo_id = Some job' \<and> status job' = ''completed'')"
proof -
  have e: "engine demo_job = ''autosub''"
    by (simp add: demo_job_def TranscriptionJob_init_def)
  have r: "backend_report ''autosub'' demo_run_ok = Success"
    by code_simp
  have s: "output_srt_of (filename demo_job) = demo_srt"
    by code_simp
  have x: "output_txt_of (filename demo_job) = demo_txt"
    by code_simp
  have xs: "os_path_exists demo_srt (disk_after demo_run_ok)"
    by code_simp
  have xt: "os_path_exists demo_txt (disk_after demo_run_ok)"
    by code_simp
  show ?thesis
    using completed_iff_verified_success [OF demo_lookup, of demo_run_ok 7000000]
      e r s x xs xt demo_lookup
    by auto
qed

section \<open>The progress sink\<close>

text \<open>
  Claim C8. For an identifier that is not in the job store a progress report returns the
  state it was given, and so does the dispatcher: nothing is raised and no record
  changes.
\<close>

theorem progress_unknown_id_noop:
  "map_of (transcription_jobs st) jid = None \<Longrightarrow>
     progress_callback jid task p st = st \<and> process_transcription_job jid run t st = (None, st)"
  by (simp add: progress_callback_def process_transcription_job_def)

theorem progress_unknown_id_noop_witness:
  "map_of (transcription_jobs demo_pending) ''job_2_00000000'' = None \<and>
   progress_callback ''job_2_00000000'' ''Performing speech recognition: '' 50 demo_pending
     = demo_pending \<and>
   process_transcription_job ''job_2_00000000'' demo_run_ok 7000000 demo_pending
     = (None, demo_pending)"
proof -
  have h: "map_of (transcription_jobs demo_pending) ''job_2_00000000'' = None"
    by (simp add: demo_pending_def demo_id_def)
  show ?thesis
    using h progress_unknown_id_noop [OF h] by simp
qed

text \<open>
  Claim C7 as stated fails: the sink stores what it is given. For the job of
  \<open>demo_processing\<close>, whose status is \<open>processing\<close>, the reports 100 and then 0 (the two
  phases of autosub) leave a stored progress that decreases, and a report of 150 leaves
  a stored progress above 100.
\<close>

theorem progress_not_monotone_counterexample:
  "map_of (transcription_jobs demo_processing) demo_id = Some (demo_job\<lparr>status := ''processing''\<rparr>) \<and>
   progress_trace demo_id [(''Converting speech regions to FLAC files: '', 100),
                           (''Performing speech recognition: '', 0)] demo_processing = [100, 0] \<and>
   \<not> valid_progress (progress_trace demo_id
                        [(''Converting speech regions to FLAC files: '', 100),
                         (''Performing speech recognition: '', 0)] demo_processing) \<and>
   \<not> valid_progress (progress_trace demo_id [(''Performing speech recognition: '', 150)]
                        demo_processing)"
  by code_simp

text \<open>
  Claim C7, amended. For a job in the store, the stored progress after each report is the
  reported value, whatever the status: the stored values are between 0 and 100 and
  never decrease exactly when the values the backend reports are.
\<close>

theorem progress_trace_is_reports:
  "map_of (transcription_jobs st) jid = Some job \<Longrightarrow>
     progress_trace jid reps st = map snd reps \<and>
     valid_progress (progress_trace jid reps st) = valid_progress (map snd reps)"
proof -
  have "map_of (transcription_jobs st) jid = Some job \<Longrightarrow> progress_trace jid reps st = map snd reps"
  proof (induction reps arbitrary: st job)
    case Nil
    show ?case by simp
  next
    case (Cons r reps)
    have "map_of (transcription_jobs (progress_callback jid (fst r) (snd r) st)) jid
            = Some (job\<lparr>progress := snd r\<rparr>)"
      using Cons.prems by (simp add: lookup_progress_callback)
    then show ?case
      using Cons.IH by (simp add: Let_def)
  qed
  then show "map_of (transcription_jobs st) jid = Some job \<Longrightarrow>
     progress_trace jid reps st = map snd reps \<and>
     valid_progress (progress_trace jid reps st) = valid_progress (map snd reps)"
    by simp
qed

theorem progress_trace_is_reports_witness:
  "map_of (transcription_jobs demo_pending) demo_id = Some demo_job \<and>
   progress_trace demo_id [(''Converting speech regions to FLAC files: '', 30),
                           (''Converting speech regions to FLAC files: '', 60)] demo_pending
     = [30, 60] \<and>
   valid_progress (progress_trace demo_id [(''Converting speech regions to FLAC files: '', 30),
                           (''Converting speech regions to FLAC files: '', 60)] demo_pending)"
  using progress_trace_is_reports [OF demo_lookup,
      of "[(''Converting speech regions to FLAC files: '', 30),
           (''Converting speech regions to FLAC files: '', 60)]"] demo_lookup
  by (simp add: valid_progress_def)

section \<open>Creating a job\<close>

text \<open>
  Claim C4 as stated fails: the extension and the engine are compared after they have been put in
  lower case. The request of \<open>demo_request\<close> uploads \<^verbatim>\<open>talk.WAV\<close>, whose extension
  \<^verbatim>\<open>WAV\<close> is not in the list, for the engine \<^verbatim>\<open>AutoSub\<close>, which is neither of the two names:
  it is answered with 202 and the job \<open>demo_job\<close> is created.
\<close>

theorem case_folded_request_counterexample:
  "req_file demo_request = Some ''talk.WAV'' \<and> has_extension ''talk.WAV'' ''WAV'' \<and>
   ''WAV'' \<notin> {''mp3'', ''wav'', ''m4a'', ''flac'', ''ogg'', ''aac'',
              ''mp4'', ''avi'', ''mkv'', ''mov'', ''wmv'', ''flv'', ''webm'', ''ogv''} \<and>
   map_of (req_form demo_request) ''engine'' = Some ''AutoSub'' \<and>
   ''AutoSub'' \<noteq> ''autosub'' \<and> ''AutoSub'' \<noteq> ''whisper'' \<and>
   transcribe_file demo_request demo_env (initial_server demo_disk) =
     (demo_pending,
      (JsonCreated demo_id ''pending''
         ''Transcription job created. Use /status/job_1_89abcdef to check progress.'', 202)) \<and>
   map_of (transcription_jobs demo_pending) demo_id = Some demo_job"
proof -
  have x: "has_extension ''talk.WAV'' ''WAV''"
    using has_extension.dotted [of "''WAV''" "''talk''"] by simp
  have r: "req_file demo_request = Some ''talk.WAV'' \<and>
      map_of (req_form demo_request) ''engine'' = Some ''AutoSub''"
    by (simp add: demo_request_def)
  have t: "transcribe_file demo_request demo_env (initial_server demo_disk) =
     (demo_pending,
      (JsonCreated demo_id ''pending''
         ''Transcription job created. Use /status/job_1_89abcdef to check progress.'', 202))"
    by code_simp
  show ?thesis
    using x r t demo_lookup by simp
qed

text \<open>
  Claim C4, amended. A request whose file extension, in lower case, is outside the list,
  or whose engine field, in lower case, is neither \<^verbatim>\<open>autosub\<close> nor \<^verbatim>\<open>whisper\<close>, is
  answered with an error and the code 400, and the state it is served in is returned
  as it was: no job record, no identifier, no worker thread, no file.
\<close>

theorem invalid_request_rejected:
  assumes "(\<exists>fname ext. req_file rq = Some fname \<and> has_extension fname ext \<and>
              str_lower ext \<notin> {''mp3'', ''wav'', ''m4a'', ''flac'', ''ogg'', ''aac'',
                                ''mp4'', ''avi'', ''mkv'', ''mov'', ''wmv'', ''flv'', ''webm'', ''ogv''})
         \<or> (\<exists>e. map_of (req_form rq) ''engine'' = Some e \<and> str_lower e \<noteq> ''autosub''
                  \<and> str_lower e \<noteq> ''whisper'')"
  shows "\<exists>msg. transcribe_file rq env st = (st, (JsonError msg, 400))"
  using assms
proof
  assume "\<exists>fname ext. req_file rq = Some fname \<and> has_extension fname ext \<and>
              str_lower ext \<notin> {''mp3'', ''wav'', ''m4a'', ''flac'', ''ogg'', ''aac'',
                                ''mp4'', ''avi'', ''mkv'', ''mov'', ''wmv'', ''flv'', ''webm'', ''ogv''}"
  then obtain fname ext where f: "req_file rq = Some fname" "has_extension fname ext"
    and x: "str_lower ext \<notin> {''mp3'', ''wav'', ''m4a'', ''flac'', ''ogg'', ''aac'',
                                ''mp4'', ''avi'', ''mkv'', ''mov'', ''wmv'', ''flv'', ''webm'', ''ogv''}"
    by blast
  have "\<not> allowed_file fname"
    using allowed_file_ext [OF f(2)] x unfolding allowed_extensions by simp
  then show ?thesis
    using f(1) by (simp add: transcribe_file_def)
next
  assume "\<exists>e. map_of (req_form rq) ''engine'' = Some e \<and> str_lower e \<noteq> ''autosub''
                  \<and> str_lower e \<noteq> ''whisper''"
  then obtain e where e: "map_of (req_form rq) ''engine'' = Some e"
      "str_lower e \<noteq> ''autosub''" "str_lower e \<noteq> ''whisper''"
    by blast
  have "fst (get_parameters (req_form rq)) = str_lower e"
    using e(1) by (simp add: get_parameters_def form_get_def)
  then show ?thesis
    using e(2,3)
    by (cases "get_parameters (req_form rq)")
       (simp add: transcribe_file_def split: option.splits)
qed

theorem invalid_request_rejected_witness:
  "has_extension ''notes.txt'' ''txt'' \<and>
   (\<exists>msg. transcribe_file \<lparr>req_file = Some ''notes.txt'', req_form = []\<rparr> demo_env demo_pending
            = (demo_pending, (JsonError msg, 400))) \<and>
   (\<exists>msg. transcribe_file \<lparr>req_file = Some ''talk.wav'', req_form = [(''engine'', ''bogus'')]\<rparr>
              demo_env demo_pending
            = (demo_pending, (JsonError msg, 400)))"
proof -
  have x: "has_extension ''notes.txt'' ''txt''"
    using has_extension.dotted [of "''txt''" "''notes''"] by simp
  have l: "str_lower ''txt'' \<notin> {''mp3'', ''wav'', ''m4a'', ''flac'', ''ogg'', ''aac'',
              ''mp4'', ''avi'', ''mkv'', ''mov'', ''wmv'', ''flv'', ''webm'', ''ogv''}"
    by code_simp
  have b: "str_lower ''bogus'' \<noteq> ''autosub'' \<and> str_lower ''bogus'' \<noteq> ''whisper''"
    by code_simp
  have 1: "\<exists>msg. transcribe_file \<lparr>req_file = Some ''notes.txt'', req_form = []\<rparr> demo_env demo_pending
            = (demo_pending, (JsonError msg, 400))"
    using x l
    by (intro invalid_request_rejected disjI1) auto
  have 2: "\<exists>msg. transcribe_file \<lparr>req_file = Some ''talk.wav'', req_form = [(''engine'', ''bogus'')]\<rparr>
              demo_env demo_pending
            = (demo_pending, (JsonError msg, 400))"
    using b
    by (intro invalid_request_rejected disjI2) auto
  show ?thesis
    using x 1 2 by simp
qed

text \<open>
  Claim C10 as stated fails where the upload cannot be saved: the request of
  \<open>demo_bare_request\<close> has a valid file and no field, \<^verbatim>\<open>file.save\<close> raises for a full
  disk, and the request is answered with 500 and no job is created.
\<close>

theorem unsaved_upload_counterexample:
  "req_file demo_bare_request = Some ''talk.wav'' \<and> has_extension ''talk.wav'' ''wav'' \<and>
   req_form demo_bare_request = [] \<and>
   save_fault demo_env_full = Some (PyExc ''[Errno 28] No space left on device'' []) \<and>
   transcribe_file demo_bare_request demo_env_full (initial_server demo_disk) =
     (initial_server demo_disk, (JsonError ''Internal server error'', 500))"
proof -
  have x: "has_extension ''talk.wav'' ''wav''"
    using has_extension.dotted [of "''wav''" "''talk''"] by simp
  have r: "req_file demo_bare_request = Some ''talk.wav'' \<and> req_form demo_bare_request = []"
    by (simp add: demo_bare_request_def)
  have s: "save_fault demo_env_full = Some (PyExc ''[Errno 28] No space left on device'' [])"
    by (simp add: demo_env_full_def)
  have t: "transcribe_file demo_bare_request demo_env_full (initial_server demo_disk) =
     (initial_server demo_disk, (JsonError ''Internal server error'', 500))"
    by code_simp
  show ?thesis
    using x r s t by simp
qed

text \<open>
  Claim C10, amended to the uploads that are saved. A request whose file has an extension
  of the list, whose engine field is missing or a spelling of one of the two names in
  any mix of cases, and whose upload \<^verbatim>\<open>file.save\<close> stores, is answered with 202 and a job
  is created for it. The engine of the job is the name in lower case, \<^verbatim>\<open>whisper\<close> when the
  field is missing; its language is the field, \<^verbatim>\<open>en\<close> when missing; the model read
  from the request is the field, \<^verbatim>\<open>base\<close> when missing.
\<close>

theorem defaults_and_mixed_case_accepted:
  assumes "req_file rq = Some fname" "has_extension fname ext"
    and "str_lower ext \<in> {''mp3'', ''wav'', ''m4a'', ''flac'', ''ogg'', ''aac'',
                            ''mp4'', ''avi'', ''mkv'', ''mov'', ''wmv'', ''flv'', ''webm'', ''ogv''}"
    and "case map_of (req_form rq) ''engine'' of
           None \<Rightarrow> name = ''whisper''
         | Some e \<Rightarrow> (name = ''autosub'' \<or> name = ''whisper'') \<and> spelling_of name e"
    and "save_fault env = None"
  shows "\<exists>st' jid msg job.
           transcribe_file rq env st = (st', (JsonCreated jid ''pending'' msg, 202)) \<and>
           map_of (transcription_jobs st') jid = Some job \<and>
           engine job = name \<and>
           language job = (case map_of (req_form rq) ''language'' of None \<Rightarrow> ''en'' | Some l \<Rightarrow> l) \<and>
           get_parameters (req_form rq) =
             (name, language job,
              case map_of (req_form rq) ''model'' of None \<Rightarrow> ''base'' | Some m \<Rightarrow> m)"
proof -
  have a: "allowed_file fname"
    using allowed_file_ext [OF assms(2)] assms(3) unfolding allowed_extensions by simp
  have w: "str_lower ''whisper'' = ''whisper''"
    by code_simp
  have n: "name = ''autosub'' \<or> name = ''whisper''"
    using assms(4) by (auto split: option.splits)
  have e: "str_lower (form_get (req_form rq) ''engine'' ''whisper'') = name"
    using assms(4) w str_lower_spelling engine_names_lowercase
    by (auto simp: form_get_def split: option.splits)
  have p: "get_parameters (req_form rq) =
      (name, (case map_of (req_form rq) ''language'' of None \<Rightarrow> ''en'' | Some l \<Rightarrow> l),
       case map_of (req_form rq) ''model'' of None \<Rightarrow> ''base'' | Some m \<Rightarrow> m)"
    using e by (simp add: get_parameters_def form_get_def)
  show ?thesis
    unfolding transcribe_file_accepted [OF assms(1) a p n assms(5)]
    by (simp add: update_conv' TranscriptionJob_init_def p)
qed

theorem defaults_and_mixed_case_accepted_witness:
  "has_extension ''talk.WAV'' ''WAV'' \<and> spelling_of ''autosub'' ''AutoSub'' \<and>
   (\<exists>st' jid msg job.
      transcribe_file demo_request demo_env (initial_server demo_disk)
        = (st', (JsonCreated jid ''pending'' msg, 202)) \<and>
      map_of (transcription_jobs st') jid = Some job \<and>
      engine job = ''autosub'' \<and> language job = ''en'' \<and>
      get_parameters (req_form demo_request) = (''autosub'', ''en'', ''base''))"
proof -
  have x: "has_extension ''talk.WAV'' ''WAV''"
    using has_extension.dotted [of "''WAV''" "''talk''"] by simp
  have l: "str_lower ''WAV'' \<in> {''mp3'', ''wav'', ''m4a'', ''flac'', ''ogg'', ''aac'',
              ''mp4'', ''avi'', ''mkv'', ''mov'', ''wmv'', ''flv'', ''webm'', ''ogv''}"
    by code_simp
  have s: "spelling_of ''autosub'' ''AutoSub''"
    by code_simp
  have f: "req_file demo_request = Some ''talk.WAV''"
    by (simp add: demo_request_def)
  have e: "case map_of (req_form demo_request) ''engine'' of
           None \<Rightarrow> ''autosub'' = ''whisper''
         | Some e \<Rightarrow> (''autosub'' = ''autosub'' \<or> ''autosub'' = ''whisper'') \<and> spelling_of ''autosub'' e"
    using s by (simp add: demo_request_def)
  have v: "save_fault demo_env = None"
    by (simp add: demo_env_def)
  show ?thesis
    using defaults_and_mixed_case_accepted [OF f x l e v, of "initial_server demo_disk"] x s
    by (auto simp: demo_request_def)
qed

end
